theory Spec2Isabelle
  imports Complex_Main "HOL-Library.Sublist" "HOL-Library.AList"
begin

section \<open>Error taxonomy (services/errors.ts)\<close>

text \<open>
  The values that the code throws and catches. \<open>APIError\<close> carries its message, its
  optional status code and its \<open>isRetryable\<close> flag; \<open>RateLimitError\<close> and
  \<open>AuthenticationError\<close> are its subclasses (status 429, retryable, and status 401, not
  retryable). \<open>DOMException\<close> carries message and name. \<open>Undefined\<close> is the value
  \<open>undefined\<close>, which \<open>withRetry\<close> throws when its loop never ran.
\<close>

datatype js_error =
    APIError string "int option" bool
  | RateLimitError string "int option"
  | AuthenticationError string
  | ValidationError string
  | TypeError string
  | DOMException string string
  | CircuitOpenError string int
  | Error string
  | Undefined

fun instanceof_APIError :: "js_error \<Rightarrow> bool" where
  "instanceof_APIError (APIError m st r) = True"
| "instanceof_APIError (RateLimitError m ra) = True"
| "instanceof_APIError (AuthenticationError m) = True"
| "instanceof_APIError e = False"

text \<open>The field \<open>isRetryable\<close> of an \<open>APIError\<close> instance, as the constructors set it.\<close>

fun isRetryable :: "js_error \<Rightarrow> bool" where
  "isRetryable (APIError m st r) = r"
| "isRetryable (RateLimitError m ra) = True"
| "isRetryable (AuthenticationError m) = False"
| "isRetryable e = False"

fun statusCode :: "js_error \<Rightarrow> int option" where
  "statusCode (APIError m st r) = st"
| "statusCode (RateLimitError m ra) = Some 429"
| "statusCode (AuthenticationError m) = Some 401"
| "statusCode e = None"

text \<open>\<open>error.name\<close>; \<open>None\<close> where reading the property itself throws (on \<open>undefined\<close>).\<close>

fun error_name :: "js_error \<Rightarrow> string option" where
  "error_name (APIError m st r) = Some ''APIError''"
| "error_name (RateLimitError m ra) = Some ''RateLimitError''"
| "error_name (AuthenticationError m) = Some ''AuthenticationError''"
| "error_name (ValidationError m) = Some ''ValidationError''"
| "error_name (TypeError m) = Some ''TypeError''"
| "error_name (DOMException m n) = Some n"
| "error_name (CircuitOpenError m ra) = Some ''CircuitOpenError''"
| "error_name (Error m) = Some ''Error''"
| "error_name Undefined = None"

text \<open>\<open>String.prototype.includes\<close>: the needle occurs as a contiguous run.\<close>

fun str_includes :: "string \<Rightarrow> string \<Rightarrow> bool" where
  "str_includes [] sub = (sub = [])"
| "str_includes (c # cs) sub = (prefix sub (c # cs) \<or> str_includes cs sub)"

text \<open>
  \<open>APIError.fromResponse\<close>, of a response with the given status. The message text is
  built from status and body and plays no part in any decision; it is passed in.
\<close>

definition fromResponse :: "int \<Rightarrow> string \<Rightarrow> js_error" where
  "fromResponse status msg =
     (let isRetryable = (status \<ge> 500 \<or> status = 429)
      in APIError msg (Some status) isRetryable)"

fun fromError :: "js_error \<Rightarrow> js_error" where
  "fromError (APIError m st r) = APIError m st r"
| "fromError (RateLimitError m ra) = RateLimitError m ra"
| "fromError (AuthenticationError m) = AuthenticationError m"
| "fromError (TypeError m) =
     (if str_includes m ''fetch'' then APIError ''Network error: Unable to connect'' None True
      else APIError m None False)"
| "fromError (DOMException m n) =
     (if n = ''AbortError'' then APIError ''Request was cancelled'' None False
      else APIError m None False)"
| "fromError (ValidationError m) = APIError m None False"
| "fromError (CircuitOpenError m ra) = APIError m None False"
| "fromError (Error m) = APIError m None False"
| "fromError Undefined = APIError ''Unknown error occurred'' None False"

fun isRetryableError :: "js_error \<Rightarrow> bool" where
  "isRetryableError (APIError m st r) = r"
| "isRetryableError (RateLimitError m ra) = True"
| "isRetryableError (AuthenticationError m) = False"
| "isRetryableError (TypeError m) = True"
| "isRetryableError e = False"

subsection \<open>The kinds of the specification\<close>

datatype error_kind =
  Network | Timeout | RateLimited | Authentication | ServerError | ClientError
  | Cancelled | Validation | Unknown




section \<open>Backoff calculator (services/retry.ts)\<close>

record RetryConfig =
  maxRetries :: int
  baseDelay :: real
  maxDelay :: real
  backoffMultiplier :: real

definition DEFAULT_RETRY_CONFIG :: RetryConfig where
  "DEFAULT_RETRY_CONFIG =
     \<lparr>maxRetries = 3, baseDelay = 1000, maxDelay = 30000, backoffMultiplier = 2\<rparr>"

text \<open>
  \<open>calculateBackoff\<close>. The draw of \<open>Math.random()\<close>, a number in \<open>[0, 1)\<close>, is the
  argument \<open>rnd\<close>. Numbers are real numbers: rounding and overflow of doubles are not
  modelled.
\<close>

definition calculateBackoff :: "nat \<Rightarrow> RetryConfig \<Rightarrow> real \<Rightarrow> real" where
  "calculateBackoff attempt config rnd =
     (let delay = baseDelay config * backoffMultiplier config ^ attempt;
          jitter = rnd * 1000
      in min (delay + jitter) (maxDelay config))"

text \<open>The formula of section 4.2 of the specification, in its words.\<close>

definition spec_computeDelay :: "nat \<Rightarrow> real \<Rightarrow> real \<Rightarrow> real \<Rightarrow> real \<Rightarrow> real" where
  "spec_computeDelay attempt base multiplier maxDelay' jitter =
     min (base * multiplier ^ attempt + jitter) maxDelay'"


text \<open>
  \<open>sleep\<close>: a timer that takes no cancellation signal. Started at \<open>now\<close>, it
  resolves when the delay has passed (a negative delay counts as none).
\<close>

definition sleep :: "real \<Rightarrow> real \<Rightarrow> real" where
  "sleep ms now = now + max 0 ms"


section \<open>Retry helper (services/retry.ts)\<close>

text \<open>
  The surroundings of one call of \<open>withRetry\<close>, on a virtual clock in milliseconds:
  \<^item> \<open>operation k\<close> is how long the \<open>k\<close>-th invocation (counted from 0) of the
    operation takes and how its promise settles (\<open>Inl\<close> a rejection);
  \<^item> \<open>onRetry\<close> is \<open>None\<close> when no callback is given; a callback returns
    \<open>Some e\<close> when it throws \<open>e\<close>;
  \<^item> \<open>retryConfig\<close> is the configuration after merging with the defaults;
  \<^item> \<open>signal\<close> is the instant at which the abort signal fires (\<open>None\<close>: no signal,
    or one that never fires), so \<open>signal.aborted\<close> read at time \<open>t\<close> is
    \<open>aborted signal t\<close>;
  \<^item> \<open>random k\<close> is the draw of \<open>Math.random()\<close> in the backoff of attempt \<open>k\<close>.
\<close>

record 'a RetryOptions =
  operation :: "nat \<Rightarrow> real \<times> (js_error + 'a)"
  shouldRetry :: "js_error \<Rightarrow> nat \<Rightarrow> bool"
  onRetry :: "(js_error \<Rightarrow> nat \<Rightarrow> real \<Rightarrow> js_error option) option"
  retryConfig :: RetryConfig
  signal :: "real option"
  random :: "nat \<Rightarrow> real"

text \<open>
  How the promise of \<open>withRetry\<close> settles, when, and how many times the operation was
  invoked until then.
\<close>

record 'a RetryResult =
  outcome :: "js_error + 'a"
  settledAt :: real
  invocations :: nat

definition aborted :: "real option \<Rightarrow> real \<Rightarrow> bool" where
  "aborted sig t = (case sig of None \<Rightarrow> False | Some tc \<Rightarrow> tc \<le> t)"

text \<open>The delay before the next attempt: the backoff, raised to a rate limit's hint.\<close>

definition retry_delay :: "'a RetryOptions \<Rightarrow> nat \<Rightarrow> js_error \<Rightarrow> real" where
  "retry_delay opts attempt error =
     (let delay = calculateBackoff attempt (retryConfig opts) (random opts attempt)
      in case error of
           RateLimitError m (Some retryAfter) \<Rightarrow>
             if retryAfter \<noteq> 0 then max delay (of_int retryAfter * 1000) else delay
         | _ \<Rightarrow> delay)"

text \<open>
  The loop of \<open>withRetry\<close>, entered at time \<open>now\<close> for the given attempt, with the
  last error seen and the number of invocations made so far.
\<close>

function withRetry_loop ::
  "'a RetryOptions \<Rightarrow> real \<Rightarrow> nat \<Rightarrow> js_error \<Rightarrow> nat \<Rightarrow> 'a RetryResult" where
  "withRetry_loop opts now attempt lastError calls =
     (if int attempt \<le> maxRetries (retryConfig opts) then
        if aborted (signal opts) now then
          \<lparr>outcome = Inl (DOMException ''Aborted'' ''AbortError''), settledAt = now,
           invocations = calls\<rparr>
        else
          (case operation opts calls of
             (duration, Inr v) \<Rightarrow>
               \<lparr>outcome = Inr v, settledAt = now + duration, invocations = calls + 1\<rparr>
           | (duration, Inl error) \<Rightarrow>
               (let t = now + duration;
                    rethrow = \<lparr>outcome = Inl error, settledAt = t, invocations = calls + 1\<rparr>
                in if aborted (signal opts) t then rethrow
                   else if int attempt = maxRetries (retryConfig opts)
                           \<or> \<not> shouldRetry opts error attempt then rethrow
                   else
                     (let delay = retry_delay opts attempt error
                      in case (case onRetry opts of None \<Rightarrow> None
                                | Some cb \<Rightarrow> cb error (attempt + 1) delay) of
                           Some thrown \<Rightarrow>
                             \<lparr>outcome = Inl thrown, settledAt = t, invocations = calls + 1\<rparr>
                         | None \<Rightarrow>
                             withRetry_loop opts (sleep delay t) (attempt + 1) error
                               (calls + 1))))
      else \<lparr>outcome = Inl lastError, settledAt = now, invocations = calls\<rparr>)"
  by pat_completeness auto
termination
  by (relation "measure (\<lambda>(opts, now, attempt, lastError, calls).
        nat (maxRetries (retryConfig opts) + 1 - int attempt))") auto

definition withRetry :: "'a RetryOptions \<Rightarrow> real \<Rightarrow> 'a RetryResult" where
  "withRetry opts start = withRetry_loop opts start 0 Undefined 0"


section \<open>Circuit breaker (services/circuitBreaker.ts)\<close>

datatype CircuitState = Closed | Open | HalfOpen

record CircuitBreakerConfig =
  failureThreshold :: int
  successThreshold :: int
  timeout :: int
  volumeThreshold :: int
  errorFilter :: "(js_error \<Rightarrow> bool) option"

record CircuitBreakerStats =
  stats_state :: CircuitState
  stats_failures :: int
  stats_successes :: int
  stats_totalRequests :: int
  stats_lastFailure :: "int option"
  stats_lastSuccess :: "int option"
  nextAttempt :: "int option"

definition DEFAULT_CONFIG :: CircuitBreakerConfig where
  "DEFAULT_CONFIG =
     \<lparr>failureThreshold = 5, successThreshold = 2, timeout = 30000, volumeThreshold = 5,
      errorFilter = Some (\<lambda>e. True)\<rparr>"

text \<open>
  The fields of the class. \<open>config\<close> is the configuration after merging with the
  defaults. \<open>delivered\<close> stands for the listeners: the snapshots handed to every
  subscribed listener so far, oldest first. Listeners are taken not to throw.
  Timestamps are the integers of \<open>Date.now()\<close>.
\<close>

record CircuitBreaker =
  state :: CircuitState
  failures :: int
  successes :: int
  totalRequests :: int
  lastFailure :: "int option"
  lastSuccess :: "int option"
  halfOpenSuccesses :: int
  config :: CircuitBreakerConfig
  delivered :: "CircuitBreakerStats list"

definition new_CircuitBreaker :: "CircuitBreakerConfig \<Rightarrow> CircuitBreaker" where
  "new_CircuitBreaker cfg =
     \<lparr>state = Closed, failures = 0, successes = 0, totalRequests = 0, lastFailure = None,
      lastSuccess = None, halfOpenSuccesses = 0, config = cfg, delivered = []\<rparr>"

text \<open>
  \<open>getStats\<close>. In the open state \<open>nextAttempt\<close> is \<open>this.lastFailure! + timeout\<close>; the
  assertion is erased at run time, and \<open>null + n\<close> is \<open>n\<close> in JavaScript.
\<close>

definition getStats :: "CircuitBreaker \<Rightarrow> CircuitBreakerStats" where
  "getStats b =
     \<lparr>stats_state = state b, stats_failures = failures b, stats_successes = successes b,
      stats_totalRequests = totalRequests b, stats_lastFailure = lastFailure b,
      stats_lastSuccess = lastSuccess b,
      nextAttempt =
        (if state b = Open
         then Some ((case lastFailure b of None \<Rightarrow> 0 | Some t \<Rightarrow> t) + timeout (config b))
         else None)\<rparr>"

definition notifyListeners :: "CircuitBreaker \<Rightarrow> CircuitBreaker" where
  "notifyListeners b = (let stats = getStats b in b\<lparr>delivered := delivered b @ [stats]\<rparr>)"

definition transitionTo :: "CircuitState \<Rightarrow> CircuitBreaker \<Rightarrow> CircuitBreaker" where
  "transitionTo newState b =
     (let b1 = b\<lparr>state := newState\<rparr>;
          b2 = (if newState = Closed then b1\<lparr>failures := 0, halfOpenSuccesses := 0\<rparr>
                else if newState = HalfOpen then b1\<lparr>halfOpenSuccesses := 0\<rparr>
                else b1)
      in notifyListeners b2)"

text \<open>\<open>!this.lastFailure\<close> holds for \<open>null\<close> and for the timestamp 0.\<close>

definition shouldAttemptReset :: "int \<Rightarrow> CircuitBreaker \<Rightarrow> bool" where
  "shouldAttemptReset now b =
     (case lastFailure b of
        None \<Rightarrow> True
      | Some t \<Rightarrow> if t = 0 then True else now - t \<ge> timeout (config b))"

definition getTimeUntilNextAttempt :: "int \<Rightarrow> CircuitBreaker \<Rightarrow> int" where
  "getTimeUntilNextAttempt now b =
     (case lastFailure b of
        None \<Rightarrow> 0
      | Some t \<Rightarrow> if t = 0 then 0
                  else (let elapsed = now - t in max 0 (timeout (config b) - elapsed)))"

definition onSuccess :: "int \<Rightarrow> CircuitBreaker \<Rightarrow> CircuitBreaker" where
  "onSuccess now b =
     (let b1 = b\<lparr>lastSuccess := Some now, successes := successes b + 1\<rparr>;
          b2 = (if state b1 = HalfOpen then
                  (let b' = b1\<lparr>halfOpenSuccesses := halfOpenSuccesses b1 + 1\<rparr>
                   in if halfOpenSuccesses b' \<ge> successThreshold (config b')
                      then transitionTo Closed b' else b')
                else if state b1 = Closed then b1\<lparr>failures := 0\<rparr>
                else b1)
      in notifyListeners b2)"

text \<open>
  \<open>onFailure\<close>. \<open>this.config.errorFilter?.(error)\<close> is \<open>undefined\<close> when the filter is
  absent, so nothing is counted then.
\<close>

definition onFailure :: "int \<Rightarrow> js_error \<Rightarrow> CircuitBreaker \<Rightarrow> CircuitBreaker" where
  "onFailure now error b =
     (if \<not> (case errorFilter (config b) of None \<Rightarrow> False | Some f \<Rightarrow> f error) then b
      else
        (let b1 = b\<lparr>lastFailure := Some now, failures := failures b + 1\<rparr>;
             b2 = (if state b1 = HalfOpen then transitionTo Open b1
                   else if state b1 = Closed then
                     (if totalRequests b1 \<ge> volumeThreshold (config b1)
                         \<and> failures b1 \<ge> failureThreshold (config b1)
                      then transitionTo Open b1 else b1)
                   else b1)
         in notifyListeners b2))"

text \<open>
  \<open>execute\<close> runs in two synchronous pieces. \<open>execute_enter\<close> is the piece up to the
  call of the operation, at time \<open>now\<close>: it fails fast (\<open>Inl\<close>) or lets the call
  through, counting it. \<open>execute_settle\<close> is the piece that runs when the operation's
  promise has settled.
\<close>

definition execute_enter :: "int \<Rightarrow> CircuitBreaker \<Rightarrow> js_error + CircuitBreaker" where
  "execute_enter now b =
     (if state b = Open then
        (if shouldAttemptReset now b then
           (let b1 = transitionTo HalfOpen b in Inr (b1\<lparr>totalRequests := totalRequests b1 + 1\<rparr>))
         else Inl (CircuitOpenError ''Circuit breaker is open'' (getTimeUntilNextAttempt now b)))
      else Inr (b\<lparr>totalRequests := totalRequests b + 1\<rparr>))"

definition execute_settle :: "int \<Rightarrow> js_error + 'a \<Rightarrow> CircuitBreaker \<Rightarrow> CircuitBreaker" where
  "execute_settle now settled b =
     (case settled of Inr result \<Rightarrow> onSuccess now b | Inl error \<Rightarrow> onFailure now error b)"

text \<open>
  One whole call of \<open>execute\<close> with no other call in between: entered at \<open>t0\<close>, the
  operation, if invoked, settles as \<open>op\<close> at \<open>t1\<close>. The result is how the call
  settles, whether the operation was invoked, and the breaker afterwards.
\<close>

definition execute ::
  "int \<Rightarrow> int \<Rightarrow> js_error + 'a \<Rightarrow> CircuitBreaker \<Rightarrow> (js_error + 'a) \<times> bool \<times> CircuitBreaker" where
  "execute t0 t1 op b =
     (case execute_enter t0 b of
        Inl e \<Rightarrow> (Inl e, False, b)
      | Inr b1 \<Rightarrow> (op, True, execute_settle t1 op b1))"

definition settled :: "(js_error + 'a) \<times> bool \<times> CircuitBreaker \<Rightarrow> js_error + 'a" where
  "settled r = fst r"

definition invoked :: "(js_error + 'a) \<times> bool \<times> CircuitBreaker \<Rightarrow> bool" where
  "invoked r = fst (snd r)"

definition breaker :: "(js_error + 'a) \<times> bool \<times> CircuitBreaker \<Rightarrow> CircuitBreaker" where
  "breaker r = snd (snd r)"

definition reset :: "CircuitBreaker \<Rightarrow> CircuitBreaker" where
  "reset b =
     notifyListeners
       (b\<lparr>state := Closed, failures := 0, successes := 0, totalRequests := 0,
          lastFailure := None, lastSuccess := None, halfOpenSuccesses := 0\<rparr>)"

definition forceOpen :: "int \<Rightarrow> CircuitBreaker \<Rightarrow> CircuitBreaker" where
  "forceOpen now b = (let b1 = transitionTo Open b in b1\<lparr>lastFailure := Some now\<rparr>)"

definition forceClose :: "CircuitBreaker \<Rightarrow> CircuitBreaker" where
  "forceClose b = transitionTo Closed b"

text \<open>
  The public operations, for runs of the breaker. A call of \<open>execute\<close> appears as its two
  pieces, so that other operations may fall between them.
\<close>

datatype 'a breaker_op =
    Enter int
  | Settle int "js_error + 'a"
  | Reset
  | ForceOpen int
  | ForceClose

fun apply_op :: "'a breaker_op \<Rightarrow> CircuitBreaker \<Rightarrow> CircuitBreaker" where
  "apply_op (Enter now) b = (case execute_enter now b of Inl e \<Rightarrow> b | Inr b' \<Rightarrow> b')"
| "apply_op (Settle now r) b = execute_settle now r b"
| "apply_op Reset b = reset b"
| "apply_op (ForceOpen now) b = forceOpen now b"
| "apply_op ForceClose b = forceClose b"

definition run_breaker :: "CircuitBreakerConfig \<Rightarrow> 'a breaker_op list \<Rightarrow> CircuitBreaker" where
  "run_breaker cfg ops = foldl (\<lambda>b x. apply_op x b) (new_CircuitBreaker cfg) ops"


section \<open>Adaptive job queue (hooks/useJobQueue.ts)\<close>

datatype JobId = StringId string | NumberId int

record 'd QueueJob =
  job_id :: JobId
  data :: 'd
  priority :: "int option"
  retries :: "nat option"
  job_maxRetries :: "int option"
  createdAt :: "int option"

text \<open>
  The options of the hook, taken as fixed over the life of the queue. The processor is
  not part of them: it belongs to the surroundings, and how each of its promises settles
  arrives as an event. An observer is \<open>None\<close> when it is not given; a given observer
  returns \<open>Some e\<close> when it throws \<open>e\<close>. \<open>onQueueEmpty\<close> and \<open>onProgress\<close> touch
  nothing of the queue and are left out.
\<close>

record ('d, 'r) QueueOptions =
  concurrency :: int
  queue_maxRetries :: int
  retryDelay :: real
  onJobStart :: "('d QueueJob \<Rightarrow> js_error option) option"
  onJobComplete :: "('d QueueJob \<Rightarrow> 'r \<Rightarrow> js_error option) option"
  onJobError :: "('d QueueJob \<Rightarrow> js_error \<Rightarrow> js_error option) option"
  onJobRetry :: "('d QueueJob \<Rightarrow> nat \<Rightarrow> js_error \<Rightarrow> js_error option) option"

record QueueState =
  isProcessing :: bool
  isPaused :: bool
  totalJobs :: nat
  completedJobs :: nat
  failedJobs :: nat
  activeJobs :: nat
  retriedJobs :: nat
  averageProcessingTime :: real
  currentConcurrency :: int

text \<open>
  Where a running call of \<open>processJob\<close> is suspended: at the processor's promise; at the
  promise of \<open>handleError\<close> (a timer of 5000 ms when the limit was lowered, else an
  already resolved promise), with the local \<open>retries\<close>; or at the backoff timer, with
  its delay and the local \<open>retries\<close>.
\<close>

datatype phase = Processing | Penalty "real option" nat | Backoff real nat

record 'd task =
  controller :: nat
  task_job :: "'d QueueJob"
  phase :: phase

text \<open>
  The refs of the hook and what else its behaviour depends on:
  \<^item> \<open>activeJobsRef\<close> is the \<open>Map\<close> from job id to \<open>AbortController\<close>, as an
    association list in insertion order; controllers are numbered as they are created;
  \<^item> \<open>completed\<close>, \<open>failed\<close>, \<open>retried\<close>, \<open>total_count\<close> are the fields of
    \<open>metricsRef\<close> (\<open>processingTimes\<close> is never written);
  \<^item> \<open>queueState\<close> is the React state \<open>state\<close>, as last set by \<open>updateState\<close>;
  \<^item> \<open>tasks\<close> are the calls of \<open>processJob\<close> that have not returned yet;
  \<^item> \<open>abortedControllers\<close> are the controllers whose \<open>abort()\<close> was called;
  \<^item> \<open>microtasks\<close> counts the queued \<open>queueMicrotask(() => processNext())\<close>.
\<close>

record 'd queue =
  queueRef :: "'d QueueJob list"
  activeJobsRef :: "(JobId \<times> nat) list"
  isPausedRef :: bool
  currentConcurrencyRef :: int
  consecutiveErrorsRef :: nat
  completed :: nat
  failed :: nat
  retried :: nat
  total_count :: nat
  queueState :: QueueState
  tasks :: "'d task list"
  controllers :: nat
  abortedControllers :: "nat list"
  microtasks :: nat

definition init_queue :: "('d, 'r) QueueOptions \<Rightarrow> 'd queue" where
  "init_queue opts =
     \<lparr>queueRef = [], activeJobsRef = [], isPausedRef = False,
      currentConcurrencyRef = concurrency opts, consecutiveErrorsRef = 0,
      completed = 0, failed = 0, retried = 0, total_count = 0,
      queueState =
        \<lparr>isProcessing = False, isPaused = False, totalJobs = 0, completedJobs = 0,
         failedJobs = 0, activeJobs = 0, retriedJobs = 0, averageProcessingTime = 0,
         currentConcurrency = concurrency opts\<rparr>,
      tasks = [], controllers = 0, abortedControllers = [], microtasks = 0\<rparr>"

definition updateState :: "'d queue \<Rightarrow> 'd queue" where
  "updateState q =
     q\<lparr>queueState :=
         \<lparr>isProcessing = (length (queueRef q) > 0 \<or> length (activeJobsRef q) > 0),
          isPaused = isPausedRef q, totalJobs = total_count q, completedJobs = completed q,
          failedJobs = failed q, activeJobs = length (activeJobsRef q),
          retriedJobs = retried q, averageProcessingTime = 0,
          currentConcurrency = currentConcurrencyRef q\<rparr>\<rparr>"

text \<open>\<open>handleSuccess\<close>; \<open>rnd\<close> is the draw of \<open>Math.random()\<close>.\<close>

definition handleSuccess :: "('d, 'r) QueueOptions \<Rightarrow> real \<Rightarrow> 'd queue \<Rightarrow> 'd queue" where
  "handleSuccess opts rnd q =
     (let q1 = q\<lparr>consecutiveErrorsRef := 0\<rparr>
      in if currentConcurrencyRef q1 < concurrency opts \<and> rnd > 0.8
         then updateState (q1\<lparr>currentConcurrencyRef := currentConcurrencyRef q1 + 1\<rparr>)
         else q1)"

text \<open>
  \<open>handleError\<close>: the queue afterwards and the promise it returns (\<open>Some 5000\<close>: the
  penalty timer; \<open>None\<close>: \<open>Promise.resolve()\<close>).
\<close>

definition handleError :: "'d queue \<Rightarrow> 'd queue \<times> real option" where
  "handleError q =
     (let q1 = q\<lparr>consecutiveErrorsRef := consecutiveErrorsRef q + 1\<rparr>
      in if consecutiveErrorsRef q1 > 2 \<and> currentConcurrencyRef q1 > 1
         then (updateState (q1\<lparr>currentConcurrencyRef := max 1 (currentConcurrencyRef q1 - 1)\<rparr>),
               Some 5000)
         else (q1, None))"

text \<open>
  The first synchronous piece of \<open>processJob\<close>, up to the call of the processor. When
  \<open>onJobStart\<close> throws, the call ends there, outside the \<open>try\<close>: the processor is
  never invoked and the entry in \<open>activeJobsRef\<close> stays.
\<close>

definition processJob_start :: "('d, 'r) QueueOptions \<Rightarrow> 'd QueueJob \<Rightarrow> 'd queue \<Rightarrow> 'd queue" where
  "processJob_start opts job q =
     (let c = controllers q;
          q1 = updateState
                 (q\<lparr>controllers := c + 1,
                    activeJobsRef := AList.update (job_id job) c (activeJobsRef q)\<rparr>)
      in case (case onJobStart opts of None \<Rightarrow> None | Some cb \<Rightarrow> cb job) of
           Some thrown \<Rightarrow> q1
         | None \<Rightarrow> q1\<lparr>tasks := tasks q1 @ [\<lparr>controller = c, task_job = job, phase = Processing\<rparr>]\<rparr>)"

definition job_priority :: "'d QueueJob \<Rightarrow> int" where
  "job_priority j = (case priority j of None \<Rightarrow> 0 | Some p \<Rightarrow> p)"

text \<open>
  \<open>processNext\<close>. The sort is stable and puts higher priorities first. The call of
  \<open>processJob\<close> runs that function's first piece; a further start is deferred to a
  microtask.
\<close>

definition processNext :: "('d, 'r) QueueOptions \<Rightarrow> 'd queue \<Rightarrow> 'd queue" where
  "processNext opts q =
     (if isPausedRef q then q
      else if int (length (activeJobsRef q)) \<ge> currentConcurrencyRef q then q
      else
        (case sort_key (\<lambda>j. - job_priority j) (queueRef q) of
           [] \<Rightarrow> q
         | job # rest \<Rightarrow>
             (let q1 = processJob_start opts job (q\<lparr>queueRef := rest\<rparr>)
              in if int (length (activeJobsRef q1)) < currentConcurrencyRef q1
                    \<and> length (queueRef q1) > 0
                 then q1\<lparr>microtasks := microtasks q1 + 1\<rparr>
                 else q1)))"

text \<open>The \<open>finally\<close> block of \<open>processJob\<close>, after which the call has returned.\<close>

definition processJob_finally :: "('d, 'r) QueueOptions \<Rightarrow> 'd task \<Rightarrow> 'd queue \<Rightarrow> 'd queue" where
  "processJob_finally opts t q =
     processNext opts
       (updateState
          (q\<lparr>activeJobsRef := AList.delete (job_id (task_job t)) (activeJobsRef q),
             tasks := filter (\<lambda>u. controller u \<noteq> controller t) (tasks q)\<rparr>))"

definition set_phase :: "nat \<Rightarrow> phase \<Rightarrow> 'd queue \<Rightarrow> 'd queue" where
  "set_phase c ph q =
     q\<lparr>tasks := map (\<lambda>u. if controller u = c then u\<lparr>phase := ph\<rparr> else u) (tasks q)\<rparr>"

text \<open>
  The \<open>catch\<close> block of \<open>processJob\<close>, up to its first \<open>await\<close>. Reading
  \<open>error.name\<close> of \<open>undefined\<close> throws out of the block; so does a throwing observer.
\<close>

definition processJob_catch ::
  "('d, 'r) QueueOptions \<Rightarrow> 'd task \<Rightarrow> js_error \<Rightarrow> 'd queue \<Rightarrow> 'd queue" where
  "processJob_catch opts t error q =
     (case error_name error of
        None \<Rightarrow> processJob_finally opts t q
      | Some name \<Rightarrow>
          if name = ''AbortError'' then processJob_finally opts t q
          else
            (let job = task_job t;
                 retries' = (case retries job of None \<Rightarrow> 0 | Some r \<Rightarrow> r) + 1
             in if int retries' \<le> queue_maxRetries opts then
                  (let q1 = q\<lparr>retried := retried q + 1\<rparr>
                   in case (case onJobRetry opts of None \<Rightarrow> None
                            | Some cb \<Rightarrow> cb job retries' error) of
                        Some thrown \<Rightarrow> processJob_finally opts t q1
                      | None \<Rightarrow>
                          (case handleError q1 of
                             (q2, penalty) \<Rightarrow> set_phase (controller t) (Penalty penalty retries') q2))
                else
                  processJob_finally opts t (q\<lparr>failed := failed q + 1\<rparr>)))"

definition find_task :: "nat \<Rightarrow> 'd queue \<Rightarrow> 'd task option" where
  "find_task c q = find (\<lambda>u. controller u = c) (tasks q)"

text \<open>The processor's promise of the task with controller \<open>c\<close> is fulfilled.\<close>

definition processor_resolved ::
  "('d, 'r) QueueOptions \<Rightarrow> nat \<Rightarrow> 'r \<Rightarrow> real \<Rightarrow> 'd queue \<Rightarrow> 'd queue" where
  "processor_resolved opts c result rnd q =
     (case find_task c q of
        None \<Rightarrow> q
      | Some t \<Rightarrow>
          if phase t \<noteq> Processing then q
          else
            (let q1 = q\<lparr>completed := completed q + 1\<rparr>;
                 q2 = handleSuccess opts rnd q1
             in case (case onJobComplete opts of None \<Rightarrow> None
                      | Some cb \<Rightarrow> cb (task_job t) result) of
                  Some thrown \<Rightarrow> processJob_catch opts t thrown q2
                | None \<Rightarrow> processJob_finally opts t q2))"

text \<open>The processor's promise of the task with controller \<open>c\<close> is rejected.\<close>

definition processor_rejected ::
  "('d, 'r) QueueOptions \<Rightarrow> nat \<Rightarrow> js_error \<Rightarrow> 'd queue \<Rightarrow> 'd queue" where
  "processor_rejected opts c error q =
     (case find_task c q of
        None \<Rightarrow> q
      | Some t \<Rightarrow> if phase t \<noteq> Processing then q else processJob_catch opts t error q)"

text \<open>
  The promise of \<open>handleError\<close> has resolved: the backoff delay is computed and its
  timer set.
\<close>

definition penalty_elapsed :: "('d, 'r) QueueOptions \<Rightarrow> nat \<Rightarrow> 'd queue \<Rightarrow> 'd queue" where
  "penalty_elapsed opts c q =
     (case find_task c q of
        None \<Rightarrow> q
      | Some t \<Rightarrow>
          (case phase t of
             Penalty penalty retries' \<Rightarrow>
               (let delay = retryDelay opts * 2 ^ retries'
                in set_phase c (Backoff delay retries') q)
           | _ \<Rightarrow> q))"

text \<open>
  The backoff timer has fired: the job goes back to the front of the queue with the new
  \<open>retries\<close>, and the \<open>finally\<close> block runs.
\<close>

definition backoff_elapsed :: "('d, 'r) QueueOptions \<Rightarrow> nat \<Rightarrow> 'd queue \<Rightarrow> 'd queue" where
  "backoff_elapsed opts c q =
     (case find_task c q of
        None \<Rightarrow> q
      | Some t \<Rightarrow>
          (case phase t of
             Backoff delay retries' \<Rightarrow>
               processJob_finally opts t
                 (q\<lparr>queueRef := (task_job t)\<lparr>retries := Some retries'\<rparr> # queueRef q\<rparr>)
           | _ \<Rightarrow> q))"

definition addJobs :: "('d, 'r) QueueOptions \<Rightarrow> 'd QueueJob list \<Rightarrow> int \<Rightarrow> 'd queue \<Rightarrow> 'd queue" where
  "addJobs opts jobs now q =
     (let newJobs = map (\<lambda>j. j\<lparr>retries := Some 0, createdAt := Some now\<rparr>) jobs
      in processNext opts
           (updateState (q\<lparr>queueRef := queueRef q @ newJobs, total_count := total_count q + length jobs\<rparr>)))"

definition addJob :: "('d, 'r) QueueOptions \<Rightarrow> 'd QueueJob \<Rightarrow> int \<Rightarrow> 'd queue \<Rightarrow> 'd queue" where
  "addJob opts job now q = addJobs opts [job] now q"

definition pause :: "'d queue \<Rightarrow> 'd queue" where
  "pause q = updateState (q\<lparr>isPausedRef := True\<rparr>)"

definition resume :: "('d, 'r) QueueOptions \<Rightarrow> 'd queue \<Rightarrow> 'd queue" where
  "resume opts q = processNext opts (updateState (q\<lparr>isPausedRef := False\<rparr>))"

definition cancelAll :: "'d queue \<Rightarrow> 'd queue" where
  "cancelAll q =
     updateState
       (q\<lparr>abortedControllers := abortedControllers q @ map snd (activeJobsRef q),
          activeJobsRef := [], queueRef := [], isPausedRef := False\<rparr>)"

definition run_microtask :: "('d, 'r) QueueOptions \<Rightarrow> 'd queue \<Rightarrow> 'd queue" where
  "run_microtask opts q =
     (if microtasks q > 0 then processNext opts (q\<lparr>microtasks := microtasks q - 1\<rparr>) else q)"

text \<open>
  What can happen to a queue: a call of its interface (with the reading of
  \<open>Date.now()\<close>), a queued microtask running, a processor's promise settling (with the
  draw of \<open>Math.random()\<close> on success), a timer firing. An event that cannot happen in
  the state at hand (no such task, or not in that phase) changes nothing.
\<close>

datatype ('d, 'r) event =
    AddJobs "'d QueueJob list" int
  | AddJob "'d QueueJob" int
  | Pause
  | Resume
  | CancelAll
  | Microtask
  | Resolved nat 'r real
  | Rejected nat js_error
  | PenaltyElapsed nat
  | BackoffElapsed nat

fun step :: "('d, 'r) QueueOptions \<Rightarrow> ('d, 'r) event \<Rightarrow> 'd queue \<Rightarrow> 'd queue" where
  "step opts (AddJobs jobs now) q = addJobs opts jobs now q"
| "step opts (AddJob job now) q = addJob opts job now q"
| "step opts Pause q = pause q"
| "step opts Resume q = resume opts q"
| "step opts CancelAll q = cancelAll q"
| "step opts Microtask q = run_microtask opts q"
| "step opts (Resolved c result rnd) q = processor_resolved opts c result rnd q"
| "step opts (Rejected c error) q = processor_rejected opts c error q"
| "step opts (PenaltyElapsed c) q = penalty_elapsed opts c q"
| "step opts (BackoffElapsed c) q = backoff_elapsed opts c q"

definition run :: "('d, 'r) QueueOptions \<Rightarrow> ('d, 'r) event list \<Rightarrow> 'd queue" where
  "run opts evs = foldl (\<lambda>q ev. step opts ev q) (init_queue opts) evs"


section \<open>Invariants and concrete inputs\<close>

text \<open>In the open state the time of the last failure is known.\<close>

definition open_inv :: "CircuitBreaker \<Rightarrow> bool" where
  "open_inv b = (state b = Open \<longrightarrow> lastFailure b \<noteq> None)"

text \<open>
  The bounds of the adaptive limit and of the number of active jobs, for the refs and for
  the published state; the keys of \<open>activeJobsRef\<close> are distinct, so that the length of
  the list is the size of the \<open>Map\<close>.
\<close>

definition queue_inv :: "('d, 'r) QueueOptions \<Rightarrow> 'd queue \<Rightarrow> bool" where
  "queue_inv opts q =
     (int (length (activeJobsRef q)) \<le> concurrency opts
      \<and> 1 \<le> currentConcurrencyRef q \<and> currentConcurrencyRef q \<le> concurrency opts
      \<and> int (activeJobs (queueState q)) \<le> concurrency opts
      \<and> 1 \<le> currentConcurrency (queueState q)
      \<and> currentConcurrency (queueState q) \<le> concurrency opts
      \<and> distinct (map fst (activeJobsRef q)))"

text \<open>A job as a caller hands it in, and the hook's default options with no observer.\<close>

definition plain_job :: "int \<Rightarrow> unit QueueJob" where
  "plain_job n =
     \<lparr>job_id = NumberId n, data = (), priority = None, retries = None,
      job_maxRetries = None, createdAt = None\<rparr>"

definition default_options :: "(unit, unit) QueueOptions" where
  "default_options =
     \<lparr>concurrency = 3, queue_maxRetries = 3, retryDelay = 2000, onJobStart = None,
      onJobComplete = None, onJobError = None, onJobRetry = None\<rparr>"

text \<open>An operation that fails at once with a network error, retried with the defaults.\<close>

definition failing_fetch :: "real option \<Rightarrow> real \<Rightarrow> unit RetryOptions" where
  "failing_fetch sig rnd =
     \<lparr>operation = (\<lambda>k. (0, Inl (TypeError ''Failed to fetch''))),
      shouldRetry = (\<lambda>e n. isRetryableError e), onRetry = None,
      retryConfig = DEFAULT_RETRY_CONFIG, signal = sig, random = (\<lambda>k. rnd)\<rparr>"


section \<open>Error taxonomy\<close>

lemma includes_fetch_examples:
  "str_includes ''Failed to fetch'' ''fetch''" "\<not> str_includes ''Load failed'' ''fetch''"
  by simp_all

lemma isRetryableError_fromResponse:
  "isRetryableError (fromResponse status msg) = (status \<ge> 500 \<or> status = 429)"
  by (simp add: fromResponse_def)

lemma isRetryableError_APIError:
  "instanceof_APIError e \<Longrightarrow> isRetryableError e = isRetryable e"
  by (cases e) auto


text \<open>The same at a 503, a 429, a 401 and a 404 response, and at two caught values.\<close>

lemma isRetryableError_examples:
  "isRetryableError (fromResponse 503 ''Service Unavailable'')"
  "isRetryableError (fromResponse 429 ''Too Many Requests'')"
  "\<not> isRetryableError (fromResponse 401 ''Unauthorized'')"
  "\<not> isRetryableError (fromResponse 404 ''Not Found'')"
  "isRetryableError (fromError (TypeError ''Failed to fetch''))"
  "\<not> isRetryableError (fromError (DOMException ''Aborted'' ''AbortError''))"
  by (simp_all add: fromResponse_def)


section \<open>Backoff calculator\<close>

lemma jitter_free_mono:
  assumes "0 \<le> baseDelay cfg" and "1 \<le> backoffMultiplier cfg" and "n \<le> m"
  shows "calculateBackoff n cfg 0 \<le> calculateBackoff m cfg 0"
proof -
  have "backoffMultiplier cfg ^ n \<le> backoffMultiplier cfg ^ m"
    using assms(2,3) by (rule power_increasing[rotated])
  then have "baseDelay cfg * backoffMultiplier cfg ^ n
               \<le> baseDelay cfg * backoffMultiplier cfg ^ m"
    using assms(1) by (rule mult_left_mono)
  then show ?thesis unfolding calculateBackoff_def Let_def by (auto simp: min_def)
qed

text \<open>
  Claim C7. For a base delay of at least 0, a multiplier of at least 1, a maximal delay of
  at least 0 and a draw in \<open>[0, 1)\<close>: \<open>calculateBackoff\<close> is the formula of the
  specification for a jitter in \<open>[0, 1000)\<close>; it never exceeds the maximal delay; and its
  value without jitter, \<open>min (base * multiplier ^ attempt) maxDelay\<close>, does not decrease
  as the attempt grows.
\<close>

theorem calculateBackoff_spec:
  assumes "0 \<le> baseDelay cfg" and "1 \<le> backoffMultiplier cfg"
    and "0 \<le> maxDelay cfg" and "0 \<le> rnd" and "rnd < 1"
  shows "(\<exists>jitter. 0 \<le> jitter \<and> jitter < 1000 \<and>
            calculateBackoff attempt cfg rnd =
              spec_computeDelay attempt (baseDelay cfg) (backoffMultiplier cfg)
                (maxDelay cfg) jitter)
       \<and> calculateBackoff attempt cfg rnd \<le> maxDelay cfg
       \<and> calculateBackoff attempt cfg 0 =
            min (baseDelay cfg * backoffMultiplier cfg ^ attempt) (maxDelay cfg)
       \<and> (\<forall>n m. n \<le> m \<longrightarrow> calculateBackoff n cfg 0 \<le> calculateBackoff m cfg 0)"
proof -
  have "0 \<le> rnd * 1000 \<and> rnd * 1000 < 1000 \<and>
        calculateBackoff attempt cfg rnd =
          spec_computeDelay attempt (baseDelay cfg) (backoffMultiplier cfg)
            (maxDelay cfg) (rnd * 1000)"
    using assms(4,5) by (simp add: calculateBackoff_def spec_computeDelay_def Let_def)
  then have ex: "\<exists>jitter. 0 \<le> jitter \<and> jitter < 1000 \<and>
            calculateBackoff attempt cfg rnd =
              spec_computeDelay attempt (baseDelay cfg) (backoffMultiplier cfg)
                (maxDelay cfg) jitter"
    by blast
  have cap: "calculateBackoff attempt cfg rnd \<le> maxDelay cfg"
    by (simp add: calculateBackoff_def Let_def)
  have floor: "calculateBackoff attempt cfg 0 =
            min (baseDelay cfg * backoffMultiplier cfg ^ attempt) (maxDelay cfg)"
    by (simp add: calculateBackoff_def Let_def)
  have mono: "\<forall>n m. n \<le> m \<longrightarrow> calculateBackoff n cfg 0 \<le> calculateBackoff m cfg 0"
    using jitter_free_mono[OF assms(1,2)] by blast
  from ex cap floor mono show ?thesis by blast
qed

text \<open>The default configuration: attempt 2 with a draw of one half; attempts 1 and 5.\<close>

theorem calculateBackoff_spec_witness:
  "0 \<le> baseDelay DEFAULT_RETRY_CONFIG \<and> 1 \<le> backoffMultiplier DEFAULT_RETRY_CONFIG
   \<and> 0 \<le> maxDelay DEFAULT_RETRY_CONFIG \<and> (0::real) \<le> 1/2 \<and> (1/2 :: real) < 1
   \<and> calculateBackoff 2 DEFAULT_RETRY_CONFIG (1/2) = 4500
   \<and> calculateBackoff 2 DEFAULT_RETRY_CONFIG (1/2) \<le> maxDelay DEFAULT_RETRY_CONFIG
   \<and> calculateBackoff 1 DEFAULT_RETRY_CONFIG 0 \<le> calculateBackoff 5 DEFAULT_RETRY_CONFIG 0
   \<and> calculateBackoff 5 DEFAULT_RETRY_CONFIG 0 = 30000"
  using calculateBackoff_spec[of DEFAULT_RETRY_CONFIG "1/2" 2]
  by (simp add: DEFAULT_RETRY_CONFIG_def calculateBackoff_def Let_def)


section \<open>Retry helper\<close>

text \<open>
  Claim C2, as amended. When the signal fires while \<open>withRetry\<close> waits between two
  attempts, the call rejects with an \<open>AbortError\<close> and the operation is not invoked
  again; it does so when the whole computed delay has passed, at the check before the
  next attempt, not when the signal fires. This holds at every round of the loop.
\<close>

theorem withRetry_cancel_during_sleep:
  assumes "int attempt < maxRetries (retryConfig opts)"
    and "operation opts calls = (duration, Inl error)" and "0 \<le> duration"
    and "shouldRetry opts error attempt"
    and "(case onRetry opts of None \<Rightarrow> None
          | Some cb \<Rightarrow> cb error (attempt + 1) (retry_delay opts attempt error)) = None"
    and "signal opts = Some tc" and "now + duration < tc"
    and "tc \<le> sleep (retry_delay opts attempt error) (now + duration)"
  shows "withRetry_loop opts now attempt lastError calls =
           \<lparr>outcome = Inl (DOMException ''Aborted'' ''AbortError''),
            settledAt = sleep (retry_delay opts attempt error) (now + duration),
            invocations = calls + 1\<rparr>"
proof -
  have na: "\<not> aborted (signal opts) now" "\<not> aborted (signal opts) (now + duration)"
    using assms(3,6,7) by (simp_all add: aborted_def)
  have ab: "aborted (signal opts) (sleep (retry_delay opts attempt error) (now + duration))"
    using assms(6,8) by (simp add: aborted_def)
  have next_round: "withRetry_loop opts (sleep (retry_delay opts attempt error) (now + duration))
          (attempt + 1) error (calls + 1) =
        \<lparr>outcome = Inl (DOMException ''Aborted'' ''AbortError''),
            settledAt = sleep (retry_delay opts attempt error) (now + duration),
            invocations = calls + 1\<rparr>"
    using assms(1) ab by (subst withRetry_loop.simps) simp
  show ?thesis
    using assms(1,2,4,5) na next_round by (subst withRetry_loop.simps) (simp add: Let_def)
qed

text \<open>
  A failing fetch started at time 0, no jitter, cancelled at time 1: the call rejects at
  time 1000.
\<close>

theorem withRetry_cancel_during_sleep_witness:
  "int 0 < maxRetries (retryConfig (failing_fetch (Some 1) 0))
   \<and> operation (failing_fetch (Some 1) 0) 0 = (0, Inl (TypeError ''Failed to fetch''))
   \<and> shouldRetry (failing_fetch (Some 1) 0) (TypeError ''Failed to fetch'') 0
   \<and> signal (failing_fetch (Some 1) 0) = Some 1
   \<and> (0::real) + 0 < 1
   \<and> 1 \<le> sleep (retry_delay (failing_fetch (Some 1) 0) 0 (TypeError ''Failed to fetch'')) (0 + 0)
   \<and> withRetry (failing_fetch (Some 1) 0) 0 =
        \<lparr>outcome = Inl (DOMException ''Aborted'' ''AbortError''), settledAt = 1000,
         invocations = 1\<rparr>"
  using withRetry_cancel_during_sleep[where opts = "failing_fetch (Some 1) 0" and attempt = 0
      and calls = 0 and duration = 0 and error = "TypeError ''Failed to fetch''" and tc = 1
      and now = 0 and lastError = Undefined]
  by (simp add: withRetry_def failing_fetch_def DEFAULT_RETRY_CONFIG_def retry_delay_def
        calculateBackoff_def sleep_def Let_def)

text \<open>
  Claim C2 as stated fails: with a draw of one half the first delay is 1500 ms; a signal
  fired 100 ms into it does not end the wait, and the call rejects at 1500, no earlier.
\<close>

theorem withRetry_cancel_counterexample:
  "retry_delay (failing_fetch (Some 100) (1/2)) 0 (TypeError ''Failed to fetch'') = 1500
   \<and> outcome (withRetry (failing_fetch (Some 100) (1/2)) 0)
        = Inl (DOMException ''Aborted'' ''AbortError'')
   \<and> invocations (withRetry (failing_fetch (Some 100) (1/2)) 0) = 1
   \<and> settledAt (withRetry (failing_fetch (Some 100) (1/2)) 0) = 1500
   \<and> \<not> settledAt (withRetry (failing_fetch (Some 100) (1/2)) 0) < 0 + 1500"
  by (simp add: withRetry_def failing_fetch_def DEFAULT_RETRY_CONFIG_def aborted_def
        retry_delay_def calculateBackoff_def sleep_def Let_def)


section \<open>Circuit breaker\<close>

lemmas breaker_defs =
  execute_def execute_enter_def execute_settle_def onSuccess_def onFailure_def
  transitionTo_def notifyListeners_def new_CircuitBreaker_def shouldAttemptReset_def
  getTimeUntilNextAttempt_def breaker_def invoked_def settled_def Let_def

lemma shouldAttemptReset_iff:
  "\<not> shouldAttemptReset now b \<longleftrightarrow>
     (\<exists>t. lastFailure b = Some t \<and> t \<noteq> 0 \<and> now - t < timeout (config b))"
  by (auto simp: shouldAttemptReset_def split: option.splits)

text \<open>
  Claim C3. With \<open>failureThreshold = 3\<close> and \<open>volumeThreshold = 3\<close>, three calls from
  the initial state whose operations fail with errors the filter counts leave the breaker
  open. A fourth call before the timeout has passed since the last failure rejects with
  \<open>CircuitOpenError\<close> and does not invoke the operation. A call after the timeout
  turns the breaker half-open and invokes the operation. With \<open>successThreshold = 2\<close>
  that call and the next, both successful, close the breaker and reset the failures.
  The time \<open>t3\<close> of the last failure is a reading of \<open>Date.now()\<close>, taken to be
  other than 0.
\<close>

theorem circuit_breaker_transition:
  fixes op :: "js_error + 'a" and v5 v6 :: 'a and s1 t1 s2 t2 s3 t3 :: int
    and cfg :: CircuitBreakerConfig and e1 e2 e3 :: js_error
  assumes "failureThreshold cfg = 3" and "volumeThreshold cfg = 3"
    and "errorFilter cfg = Some f" and "f e1" and "f e2" and "f e3"
  defines "b3 \<equiv>
    breaker (execute s3 t3 (Inl e3 :: js_error + 'a)
      (breaker (execute s2 t2 (Inl e2 :: js_error + 'a)
        (breaker (execute s1 t1 (Inl e1 :: js_error + 'a) (new_CircuitBreaker cfg))))))"
  shows "state b3 = Open \<and> lastFailure b3 = Some t3
     \<and> (t3 \<noteq> 0 \<and> now4 - t3 < timeout cfg \<longrightarrow>
          settled (execute now4 t4 op b3) =
            Inl (CircuitOpenError ''Circuit breaker is open'' (timeout cfg - (now4 - t3)))
          \<and> \<not> invoked (execute now4 t4 op b3)
          \<and> breaker (execute now4 t4 op b3) = b3)
     \<and> (now5 - t3 \<ge> timeout cfg \<longrightarrow>
          invoked (execute now5 t5 op b3) \<and> settled (execute now5 t5 op b3) = op
          \<and> (\<exists>b. execute_enter now5 b3 = Inr b \<and> state b = HalfOpen))
     \<and> (now5 - t3 \<ge> timeout cfg \<and> successThreshold cfg = 2 \<longrightarrow>
          (let b5 = breaker (execute now5 t5 (Inr v5 :: js_error + 'a) b3);
               r6 = execute now6 t6 (Inr v6 :: js_error + 'a) b5
           in state b5 = HalfOpen \<and> invoked r6 \<and> state (breaker r6) = Closed
              \<and> failures (breaker r6) = 0 \<and> halfOpenSuccesses (breaker r6) = 0))"
proof -
  have b3: "state b3 = Open" "lastFailure b3 = Some t3" "config b3 = cfg"
    "failures b3 = 3" "totalRequests b3 = 3" "halfOpenSuccesses b3 = 0"
    using assms(1-6) unfolding b3_def by (simp_all add: breaker_defs)
  have fast: "settled (execute now4 t4 op b3) =
            Inl (CircuitOpenError ''Circuit breaker is open'' (timeout cfg - (now4 - t3)))
          \<and> \<not> invoked (execute now4 t4 op b3)
          \<and> breaker (execute now4 t4 op b3) = b3"
    if "t3 \<noteq> 0" "now4 - t3 < timeout cfg"
    using that b3 by (simp add: breaker_defs)
  have probe: "invoked (execute now5 t5 op b3) \<and> settled (execute now5 t5 op b3) = op
          \<and> (\<exists>b. execute_enter now5 b3 = Inr b \<and> state b = HalfOpen)"
    if "now5 - t3 \<ge> timeout cfg"
    using that b3 by (simp add: breaker_defs)
  have close: "(let b5 = breaker (execute now5 t5 (Inr v5 :: js_error + 'a) b3);
               r6 = execute now6 t6 (Inr v6 :: js_error + 'a) b5
           in state b5 = HalfOpen \<and> invoked r6 \<and> state (breaker r6) = Closed
              \<and> failures (breaker r6) = 0 \<and> halfOpenSuccesses (breaker r6) = 0)"
    if "now5 - t3 \<ge> timeout cfg" "successThreshold cfg = 2"
    using that b3 by (simp add: breaker_defs)
  from b3(1,2) fast probe close show ?thesis by blast
qed

text \<open>
  The defaults with both thresholds at 3: failures at 1005, 1015 and 1030, a call at 2000,
  two successful calls at 31030 and 31050.
\<close>

theorem circuit_breaker_transition_witness:
  "(let cfg = DEFAULT_CONFIG\<lparr>failureThreshold := 3, volumeThreshold := 3\<rparr>;
        b3 = breaker (execute 1020 1030 (Inl (Error ''c'') :: js_error + unit)
              (breaker (execute 1010 1015 (Inl (Error ''b'') :: js_error + unit)
                (breaker (execute 1000 1005 (Inl (Error ''a'') :: js_error + unit)
                  (new_CircuitBreaker cfg))))));
        r4 = execute 2000 2001 (Inr () :: js_error + unit) b3;
        r5 = execute 31030 31040 (Inr () :: js_error + unit) b3;
        r6 = execute 31050 31060 (Inr () :: js_error + unit) (breaker r5)
    in failureThreshold cfg = 3 \<and> volumeThreshold cfg = 3 \<and> successThreshold cfg = 2
       \<and> (1030::int) \<noteq> 0 \<and> 2000 - 1030 < timeout cfg \<and> 31030 - 1030 \<ge> timeout cfg
       \<and> state b3 = Open
       \<and> settled r4 = Inl (CircuitOpenError ''Circuit breaker is open'' 29030)
       \<and> \<not> invoked r4 \<and> breaker r4 = b3
       \<and> invoked r5 \<and> state (breaker r5) = HalfOpen
       \<and> invoked r6 \<and> state (breaker r6) = Closed \<and> failures (breaker r6) = 0)"
  using circuit_breaker_transition[where cfg = "DEFAULT_CONFIG\<lparr>failureThreshold := 3, volumeThreshold := 3\<rparr>"
     and f = "\<lambda>e. True" and ?e1.0 = "Error ''a''" and ?e2.0 = "Error ''b''" and ?e3.0 = "Error ''c''"
     and ?s1.0 = 1000 and ?t1.0 = 1005 and ?s2.0 = 1010 and ?t2.0 = 1015 and ?s3.0 = 1020
     and ?t3.0 = 1030 and ?now4.0 = 2000 and ?t4.0 = 2001 and op = "Inr ()"
     and ?now5.0 = 31030 and ?t5.0 = 31040 and ?v5.0 = "()" and ?now6.0 = 31050
     and ?t6.0 = 31060 and ?v6.0 = "()"]
  by (simp add: DEFAULT_CONFIG_def Let_def)

text \<open>
  Claim C9. When the breaker is open and \<open>shouldAttemptReset\<close> is false (the cooldown
  has not passed), a call of \<open>execute\<close> rejects with \<open>CircuitOpenError\<close>, does not
  invoke the operation and leaves the breaker as it was: the same fields, among them
  \<open>totalRequests\<close>, the same statistics, and nothing more delivered to the listeners.
\<close>

theorem execute_fast_fail_frame:
  assumes "state b = Open" and "\<not> shouldAttemptReset now b"
  shows "settled (execute now t1 op b) =
           Inl (CircuitOpenError ''Circuit breaker is open'' (getTimeUntilNextAttempt now b))
         \<and> \<not> invoked (execute now t1 op b)
         \<and> breaker (execute now t1 op b) = b
         \<and> getStats (breaker (execute now t1 op b)) = getStats b
         \<and> totalRequests (breaker (execute now t1 op b)) = totalRequests b
         \<and> delivered (breaker (execute now t1 op b)) = delivered b"
  using assms by (simp add: execute_def execute_enter_def breaker_def invoked_def settled_def)

text \<open>A breaker forced open at 5000, called at 6000.\<close>

theorem execute_fast_fail_frame_witness:
  "(let b = forceOpen 5000 (new_CircuitBreaker DEFAULT_CONFIG);
        r = execute 6000 6001 (Inr () :: js_error + unit) b
    in state b = Open \<and> \<not> shouldAttemptReset 6000 b
       \<and> settled r = Inl (CircuitOpenError ''Circuit breaker is open'' 29000)
       \<and> \<not> invoked r \<and> breaker r = b \<and> totalRequests (breaker r) = 0
       \<and> length (delivered (breaker r)) = 1)"
  using execute_fast_fail_frame[where b = "forceOpen 5000 (new_CircuitBreaker DEFAULT_CONFIG)"
      and now = 6000 and ?t1.0 = 6001 and op = "Inr () :: js_error + unit"]
  by (simp add: forceOpen_def DEFAULT_CONFIG_def breaker_defs)

text \<open>
  Between operations an open breaker knows its last failure, also when other operations
  fall between the two pieces of a call of \<open>execute\<close>.
\<close>

lemma apply_op_open_inv: "open_inv b \<Longrightarrow> open_inv (apply_op x b)"
  by (cases x)
     (auto simp: open_inv_def breaker_defs reset_def forceOpen_def forceClose_def
           split: sum.splits option.splits if_splits)

lemma foldl_open_inv: "open_inv b \<Longrightarrow> open_inv (foldl (\<lambda>b x. apply_op x b) b ops)"
  by (induction ops arbitrary: b) (simp_all add: apply_op_open_inv)

lemma run_breaker_open_has_lastFailure:
  "state (run_breaker cfg ops) = Open \<Longrightarrow> lastFailure (run_breaker cfg ops) \<noteq> None"
  using foldl_open_inv[of "new_CircuitBreaker cfg" ops]
  by (simp add: run_breaker_def open_inv_def new_CircuitBreaker_def)

text \<open>
  Claim C10 at \<open>forceOpen\<close> on a fresh breaker: the transition notifies the listeners
  before \<open>lastFailure\<close> is set, so the call of \<open>getStats\<close> inside the notification
  runs in the open state with \<open>lastFailure\<close> null, and the snapshot delivered has
  \<open>nextAttempt = null + timeout = 30000\<close>. Only afterwards is \<open>lastFailure\<close> set.
\<close>

theorem forceOpen_snapshot_before_lastFailure:
  "delivered (forceOpen 1700000000000 (new_CircuitBreaker DEFAULT_CONFIG)) =
     [\<lparr>stats_state = Open, stats_failures = 0, stats_successes = 0, stats_totalRequests = 0,
       stats_lastFailure = None, stats_lastSuccess = None, nextAttempt = Some 30000\<rparr>]
   \<and> lastFailure (forceOpen 1700000000000 (new_CircuitBreaker DEFAULT_CONFIG))
        = Some 1700000000000"
  by (simp add: forceOpen_def breaker_defs getStats_def DEFAULT_CONFIG_def)


section \<open>Adaptive job queue\<close>


lemmas queue_defs =
  run_def init_queue_def addJob_def addJobs_def processNext_def
  processJob_start_def updateState_def processor_rejected_def processor_resolved_def
  find_task_def processJob_catch_def processJob_finally_def handleSuccess_def
  handleError_def set_phase_def penalty_elapsed_def backoff_elapsed_def run_microtask_def
  pause_def resume_def cancelAll_def job_priority_def Let_def

lemma length_update_le: "length (AList.update k v al) \<le> Suc (length al)"
  by (induction al) auto

lemma length_delete_le: "length (AList.delete k al) \<le> length al"
  by (simp add: AList.delete_eq)

lemma inv_updateState:
  assumes "int (length (activeJobsRef q)) \<le> concurrency opts"
    and "1 \<le> currentConcurrencyRef q" and "currentConcurrencyRef q \<le> concurrency opts"
    and "distinct (map fst (activeJobsRef q))"
  shows "queue_inv opts (updateState q)"
  using assms by (simp add: queue_inv_def updateState_def)

lemma inv_refs:
  assumes "queue_inv opts q"
  shows "int (length (activeJobsRef q)) \<le> concurrency opts"
    and "1 \<le> currentConcurrencyRef q" and "currentConcurrencyRef q \<le> concurrency opts"
    and "distinct (map fst (activeJobsRef q))"
  using assms by (simp_all add: queue_inv_def)

lemma inv_start:
  assumes "queue_inv opts q" and "int (length (activeJobsRef q)) < currentConcurrencyRef q"
  shows "queue_inv opts (processJob_start opts job q)"
proof -
  have "int (length (AList.update (job_id job) (controllers q) (activeJobsRef q)))
          \<le> concurrency opts"
    using length_update_le[of "job_id job" "controllers q" "activeJobsRef q"]
      assms(2) inv_refs(3)[OF assms(1)] by linarith
  moreover have "distinct (map fst (AList.update (job_id job) (controllers q) (activeJobsRef q)))"
    using inv_refs(4)[OF assms(1)] by (rule distinct_update)
  ultimately show ?thesis
    using assms(1)
    by (auto simp: processJob_start_def queue_inv_def updateState_def Let_def
             split: option.splits)
qed

lemma processNext_active_bound:
  "int (length (activeJobsRef (processNext opts q)))
     \<le> max (int (length (activeJobsRef q))) (currentConcurrencyRef q)"
proof -
  have "int (length (AList.update k (controllers q) (activeJobsRef q))) \<le> currentConcurrencyRef q"
    if "int (length (activeJobsRef q)) < currentConcurrencyRef q" for k
    using length_update_le[of k "controllers q" "activeJobsRef q"] that by linarith
  then show ?thesis
    by (auto simp: processNext_def processJob_start_def updateState_def Let_def
             split: list.splits option.splits)
qed

lemma inv_queueRef: "queue_inv opts (q\<lparr>queueRef := xs\<rparr>) = queue_inv opts q"
  by (simp add: queue_inv_def)

lemma inv_microtasks: "queue_inv opts (q\<lparr>microtasks := n\<rparr>) = queue_inv opts q"
  by (simp add: queue_inv_def)

lemma inv_processNext:
  assumes "queue_inv opts q"
  shows "queue_inv opts (processNext opts q)"
proof (cases "isPausedRef q \<or> int (length (activeJobsRef q)) \<ge> currentConcurrencyRef q")
  case True
  then show ?thesis using assms by (auto simp: processNext_def)
next
  case False
  then have lt: "int (length (activeJobsRef q)) < currentConcurrencyRef q" by simp
  show ?thesis
  proof (cases "sort_key (\<lambda>j. - job_priority j) (queueRef q)")
    case Nil
    then show ?thesis using assms by (simp add: processNext_def)
  next
    case (Cons job rest)
    have "queue_inv opts (processJob_start opts job (q\<lparr>queueRef := rest\<rparr>))"
      using assms lt by (intro inv_start) (simp_all add: inv_queueRef)
    then show ?thesis
      using False Cons by (simp add: processNext_def Let_def inv_microtasks)
  qed
qed

lemma inv_finally:
  assumes "queue_inv opts q"
  shows "queue_inv opts (processJob_finally opts t q)"
proof -
  have "int (length (AList.delete (job_id (task_job t)) (activeJobsRef q))) \<le> concurrency opts"
    using length_delete_le[of "job_id (task_job t)" "activeJobsRef q"] inv_refs(1)[OF assms]
    by linarith
  moreover have "distinct (map fst (AList.delete (job_id (task_job t)) (activeJobsRef q)))"
    using inv_refs(4)[OF assms] by (rule distinct_delete)
  ultimately have "queue_inv opts
       (updateState
          (q\<lparr>activeJobsRef := AList.delete (job_id (task_job t)) (activeJobsRef q),
             tasks := filter (\<lambda>u. controller u \<noteq> controller t) (tasks q)\<rparr>))"
    using inv_refs(2,3)[OF assms] by (intro inv_updateState) simp_all
  then show ?thesis unfolding processJob_finally_def by (rule inv_processNext)
qed

lemma inv_handleSuccess:
  "queue_inv opts q \<Longrightarrow> queue_inv opts (handleSuccess opts rnd q)"
  by (auto simp: handleSuccess_def queue_inv_def updateState_def Let_def)

lemma inv_handleError:
  "queue_inv opts q \<Longrightarrow> queue_inv opts (fst (handleError q))"
  by (auto simp: handleError_def queue_inv_def updateState_def Let_def)

lemma inv_set_phase: "queue_inv opts (set_phase c ph q) = queue_inv opts q"
  by (simp add: queue_inv_def set_phase_def)

lemma inv_counters:
  "queue_inv opts (q\<lparr>retried := n\<rparr>) = queue_inv opts q"
  "queue_inv opts (q\<lparr>failed := n\<rparr>) = queue_inv opts q"
  "queue_inv opts (q\<lparr>completed := n\<rparr>) = queue_inv opts q"
  by (simp_all add: queue_inv_def)

lemma inv_catch:
  assumes "queue_inv opts q"
  shows "queue_inv opts (processJob_catch opts t error q)"
  using assms inv_handleError[of opts "q\<lparr>retried := retried q + 1\<rparr>"]
  by (auto simp: processJob_catch_def Let_def inv_finally inv_set_phase inv_counters
           split: option.splits prod.splits)

lemma inv_step:
  assumes "queue_inv opts q"
  shows "queue_inv opts (step opts ev q)"
proof (cases ev)
  case (AddJobs jobs now)
  have "queue_inv opts (updateState
      (q\<lparr>queueRef := queueRef q @ map (\<lambda>j. j\<lparr>retries := Some 0, createdAt := Some now\<rparr>) jobs,
         total_count := total_count q + length jobs\<rparr>))"
    using inv_refs[OF assms] by (intro inv_updateState) simp_all
  then show ?thesis using AddJobs by (simp add: addJobs_def Let_def inv_processNext)
next
  case (AddJob job now)
  have "queue_inv opts (updateState
      (q\<lparr>queueRef := queueRef q @ map (\<lambda>j. j\<lparr>retries := Some 0, createdAt := Some now\<rparr>) [job],
         total_count := total_count q + length [job]\<rparr>))"
    using inv_refs[OF assms] by (intro inv_updateState) simp_all
  then show ?thesis using AddJob by (simp add: addJob_def addJobs_def Let_def inv_processNext)
next
  case Pause
  then show ?thesis using inv_refs[OF assms] by (simp add: pause_def inv_updateState)
next
  case Resume
  have "queue_inv opts (updateState (q\<lparr>isPausedRef := False\<rparr>))"
    using inv_refs[OF assms] by (intro inv_updateState) simp_all
  then show ?thesis using Resume by (simp add: resume_def inv_processNext)
next
  case CancelAll
  then show ?thesis using inv_refs[OF assms]
    by (simp add: cancelAll_def inv_updateState)
next
  case Microtask
  have "queue_inv opts (q\<lparr>microtasks := microtasks q - 1\<rparr>)"
    using assms by (simp add: inv_microtasks)
  then show ?thesis using Microtask assms by (simp add: run_microtask_def inv_processNext)
next
  case (Resolved c result rnd)
  have "queue_inv opts (handleSuccess opts rnd (q\<lparr>completed := completed q + 1\<rparr>))"
    using assms by (simp add: inv_handleSuccess inv_counters)
  then show ?thesis using Resolved assms
    by (auto simp: processor_resolved_def Let_def inv_catch inv_finally split: option.splits)
next
  case (Rejected c error)
  then show ?thesis using assms
    by (auto simp: processor_rejected_def inv_catch split: option.splits)
next
  case (PenaltyElapsed c)
  then show ?thesis using assms
    by (auto simp: penalty_elapsed_def Let_def inv_set_phase split: option.splits phase.splits)
next
  case (BackoffElapsed c)
  then show ?thesis using assms
    by (auto simp: backoff_elapsed_def inv_finally inv_queueRef split: option.splits phase.splits)
qed

lemma inv_foldl:
  "queue_inv opts q \<Longrightarrow> queue_inv opts (foldl (\<lambda>q ev. step opts ev q) q evs)"
  by (induction evs arbitrary: q) (simp_all add: inv_step)

lemma inv_init: "1 \<le> concurrency opts \<Longrightarrow> queue_inv opts (init_queue opts)"
  by (simp add: queue_inv_def init_queue_def)

text \<open>
  Claim C1, as amended. In every state a run of the queue reaches, for a configured
  concurrency of at least 1: the adaptive limit lies between 1 and the configured
  concurrency, and the number of active jobs lies between 0 and the configured
  concurrency, in the refs and in the published state alike. The limit gates the start
  of jobs only: \<open>processNext\<close> never raises the number of active jobs above the limit.
\<close>

theorem adaptive_limit_bounds:
  assumes "1 \<le> concurrency opts"
  shows "1 \<le> currentConcurrencyRef (run opts evs)
       \<and> currentConcurrencyRef (run opts evs) \<le> concurrency opts
       \<and> 0 \<le> int (length (activeJobsRef (run opts evs)))
       \<and> int (length (activeJobsRef (run opts evs))) \<le> concurrency opts
       \<and> 1 \<le> currentConcurrency (queueState (run opts evs))
       \<and> currentConcurrency (queueState (run opts evs)) \<le> concurrency opts
       \<and> int (activeJobs (queueState (run opts evs))) \<le> concurrency opts
       \<and> int (length (activeJobsRef (processNext opts (run opts evs))))
            \<le> max (int (length (activeJobsRef (run opts evs))))
                  (currentConcurrencyRef (run opts evs))"
proof -
  have "queue_inv opts (run opts evs)"
    unfolding run_def using assms by (intro inv_foldl inv_init)
  then show ?thesis
    using processNext_active_bound[of opts "run opts evs"] by (simp add: queue_inv_def)
qed


text \<open>
  Three jobs started and failed, the limit lowered to 2, the first job back in the queue.
\<close>

theorem adaptive_limit_bounds_witness:
  "1 \<le> concurrency default_options
   \<and> currentConcurrencyRef (run default_options
        [AddJobs [plain_job 1, plain_job 2, plain_job 3] 0, Microtask, Microtask,
         Rejected 0 (Error ''a''), Rejected 1 (Error ''b''), Rejected 2 (Error ''c''),
         PenaltyElapsed 0, BackoffElapsed 0]) = 2
   \<and> length (activeJobsRef (run default_options
        [AddJobs [plain_job 1, plain_job 2, plain_job 3] 0, Microtask, Microtask,
         Rejected 0 (Error ''a''), Rejected 1 (Error ''b''), Rejected 2 (Error ''c''),
         PenaltyElapsed 0, BackoffElapsed 0])) = 2"
  using adaptive_limit_bounds[of default_options
        "[AddJobs [plain_job 1, plain_job 2, plain_job 3] 0, Microtask, Microtask,
         Rejected 0 (Error ''a''), Rejected 1 (Error ''b''), Rejected 2 (Error ''c''),
         PenaltyElapsed 0, BackoffElapsed 0]"]
  by (simp add: queue_defs default_options_def plain_job_def)

text \<open>
  Claim C1 as stated fails: with a concurrency of 3, three jobs are started and each is
  rejected once. The third rejection lowers the limit to 2 while all three jobs are still
  active, in the refs and in the state published at that moment.
\<close>

theorem active_exceeds_limit_counterexample:
  "length (activeJobsRef (run default_options
      [AddJobs [plain_job 1, plain_job 2, plain_job 3] 0, Microtask, Microtask,
       Rejected 0 (Error ''boom''), Rejected 1 (Error ''boom''), Rejected 2 (Error ''boom'')])) = 3
   \<and> currentConcurrencyRef (run default_options
      [AddJobs [plain_job 1, plain_job 2, plain_job 3] 0, Microtask, Microtask,
       Rejected 0 (Error ''boom''), Rejected 1 (Error ''boom''), Rejected 2 (Error ''boom'')]) = 2
   \<and> activeJobs (queueState (run default_options
      [AddJobs [plain_job 1, plain_job 2, plain_job 3] 0, Microtask, Microtask,
       Rejected 0 (Error ''boom''), Rejected 1 (Error ''boom''), Rejected 2 (Error ''boom'')])) = 3
   \<and> currentConcurrency (queueState (run default_options
      [AddJobs [plain_job 1, plain_job 2, plain_job 3] 0, Microtask, Microtask,
       Rejected 0 (Error ''boom''), Rejected 1 (Error ''boom''), Rejected 2 (Error ''boom'')])) = 2"
  by (simp add: queue_defs default_options_def plain_job_def)








text \<open>
  Claim C6 at a job whose processor always succeeds while \<open>onJobComplete\<close> throws:
  the exception lands in the \<open>catch\<close> block of \<open>processJob\<close>, so the job is counted
  as retried and put back, run again, and at last counted as failed. One job, four
  successful runs of the processor: completed 4, retried 3, failed 1.
\<close>

theorem throwing_onJobComplete_recounts:
  "total_count (run (default_options\<lparr>onJobComplete := Some (\<lambda>j r. Some (Error ''observer''))\<rparr>)
      [AddJob (plain_job 1) 0,
       Resolved 0 () 0, PenaltyElapsed 0, BackoffElapsed 0,
       Resolved 1 () 0, PenaltyElapsed 1, BackoffElapsed 1,
       Resolved 2 () 0, PenaltyElapsed 2, BackoffElapsed 2,
       Resolved 3 () 0]) = 1
   \<and> completed (run (default_options\<lparr>onJobComplete := Some (\<lambda>j r. Some (Error ''observer''))\<rparr>)
      [AddJob (plain_job 1) 0,
       Resolved 0 () 0, PenaltyElapsed 0, BackoffElapsed 0,
       Resolved 1 () 0, PenaltyElapsed 1, BackoffElapsed 1,
       Resolved 2 () 0, PenaltyElapsed 2, BackoffElapsed 2,
       Resolved 3 () 0]) = 4
   \<and> retried (run (default_options\<lparr>onJobComplete := Some (\<lambda>j r. Some (Error ''observer''))\<rparr>)
      [AddJob (plain_job 1) 0,
       Resolved 0 () 0, PenaltyElapsed 0, BackoffElapsed 0,
       Resolved 1 () 0, PenaltyElapsed 1, BackoffElapsed 1,
       Resolved 2 () 0, PenaltyElapsed 2, BackoffElapsed 2,
       Resolved 3 () 0]) = 3
   \<and> failed (run (default_options\<lparr>onJobComplete := Some (\<lambda>j r. Some (Error ''observer''))\<rparr>)
      [AddJob (plain_job 1) 0,
       Resolved 0 () 0, PenaltyElapsed 0, BackoffElapsed 0,
       Resolved 1 () 0, PenaltyElapsed 1, BackoffElapsed 1,
       Resolved 2 () 0, PenaltyElapsed 2, BackoffElapsed 2,
       Resolved 3 () 0]) = 1
   \<and> queueRef (run (default_options\<lparr>onJobComplete := Some (\<lambda>j r. Some (Error ''observer''))\<rparr>)
      [AddJob (plain_job 1) 0, Pause, Resolved 0 () 0, PenaltyElapsed 0, BackoffElapsed 0])
      = [(plain_job 1)\<lparr>retries := Some 1, createdAt := Some 0\<rparr>]"
  by (simp add: queue_defs default_options_def plain_job_def)

text \<open>
  A throwing \<open>onJobStart\<close> is outside the \<open>try\<close>: the processor is never invoked, no
  call of \<open>processJob\<close> is left to clean up, and the entry of the job stays in
  \<open>activeJobsRef\<close>.
\<close>

lemma throwing_onJobStart_leaves_active:
  "activeJobsRef (run (default_options\<lparr>onJobStart := Some (\<lambda>j. Some (Error ''observer''))\<rparr>)
      [AddJob (plain_job 1) 0]) = [(NumberId 1, 0)]
   \<and> tasks (run (default_options\<lparr>onJobStart := Some (\<lambda>j. Some (Error ''observer''))\<rparr>)
      [AddJob (plain_job 1) 0]) = []"
  by (simp add: queue_defs default_options_def plain_job_def)

text \<open>
  Claim C8. For every queue state, \<open>cancelAll\<close> twice gives the state that \<open>cancelAll\<close>
  once gives: an empty queue, no active job and the paused flag cleared, in the refs and
  in the published state.
\<close>

theorem cancelAll_idempotent:
  "cancelAll (cancelAll q) = cancelAll q
   \<and> queueRef (cancelAll q) = [] \<and> activeJobsRef (cancelAll q) = []
   \<and> \<not> isPausedRef (cancelAll q)
   \<and> activeJobs (queueState (cancelAll q)) = 0 \<and> \<not> isPaused (queueState (cancelAll q))
   \<and> \<not> isProcessing (queueState (cancelAll q))"
  by (simp add: cancelAll_def updateState_def)


end
